theory Spec2Isabelle
  imports Main "HOL-Library.Word" "HOL-Library.Sublist"
begin

section \<open>Data model of \<open>pkg/kube.go\<close>\<close>

text \<open>
  Go strings and byte slices are byte sequences; \<open>string\<close> (a list of 8-bit characters)
  stands for both, so that \<open>string(buffer)\<close> is the identity.
\<close>

text \<open>\<open>type Option struct\<close> (kube.go, lines 71-76).\<close>

record Option =
  NameSpace :: string
  PodName :: string
  Container :: string
  Commands :: "string list"

text \<open>
  \<open>type Response struct\<close> (kube.go, lines 78-83). \<open>Code\<close> is an \<open>int32\<close>, a 32-bit
  word that \<open>sint\<close> reads as two's complement. \<open>Result\<close> is
  an \<open>interface{}\<close>: \<open>None\<close> is the nil interface, \<open>Some v\<close> a dynamic value \<open>v\<close> of a type
  \<open>'v\<close> that the development leaves open.
\<close>

type_synonym int32 = "32 word"

record 'v Response =
  Code :: int32
  Success :: bool
  Err :: string
  Result :: "'v option"

text \<open>
  The parts of \<open>api.Pod\<close> (package \<open>k8s.io/api/core/v1\<close>) that \<open>ExecuteCommand\<close> reads:
  \<open>pod.Status.Phase\<close> and the \<open>Name\<close> of each element of \<open>pod.Spec.Containers\<close>.
  \<open>api.PodPhase\<close> is a string type.
\<close>

type_synonym PodPhase = string

definition PodSucceeded :: PodPhase where
  "PodSucceeded = ''Succeeded''"

definition PodFailed :: PodPhase where
  "PodFailed = ''Failed''"

record api_Container =
  Name :: string

record api_PodSpec =
  Containers :: "api_Container list"

record api_PodStatus =
  Phase :: PodPhase

record api_Pod =
  Spec :: api_PodSpec
  Status :: api_PodStatus

text \<open>
  The request that lines 140-154 build: \<open>Post().Resource("pods").Name(opt.PodName).
  Namespace(opt.NameSpace).SubResource("exec")\<close> with the \<open>api.PodExecOptions\<close> given to
  \<open>VersionedParams\<close>.
\<close>

record api_PodExecOptions =
  exec_Container :: string
  exec_Command :: "string list"
  exec_Stdin :: bool
  exec_Stdout :: bool
  exec_Stderr :: bool
  exec_TTY :: bool

record rest_Request =
  req_verb :: string
  req_resource :: string
  req_name :: string
  req_namespace :: string
  req_subresource :: string
  req_params :: api_PodExecOptions

text \<open>
  The calls that \<open>ExecuteCommand\<close> makes on the cluster client, in the order it makes
  them: the pod fetch (line 98), the construction of the SPDY executor for the exec
  request (line 156) and the opening of the exec stream (line 167).
\<close>

datatype call =
  PodsGet string string
  | NewExecutor rest_Request
  | ExecStream rest_Request

text \<open>
  The error of a pod fetch: its \<open>Error()\<close> text, the only thing the source reads of it,
  and the status reason that the API attaches to it (\<open>apierrors.ReasonForError\<close>; the
  empty string when it has none), which the source never reads. \<open>apierrors.IsNotFound\<close>
  is how the client library reports that the object does not exist.
\<close>

record api_error =
  Error :: string
  Reason :: string

definition StatusReasonNotFound :: string where
  "StatusReasonNotFound = ''NotFound''"

definition IsNotFound :: "api_error \<Rightarrow> bool" where
  "IsNotFound err \<longleftrightarrow> Reason err = StatusReasonNotFound"

text \<open>
  The cluster and the libraries are parameters of the model. Every other \<open>error\<close> value
  is represented by its \<open>Error()\<close> text.
  \<^item> \<open>Pods_Get ns name\<close>: the result of \<open>clientset.CoreV1().Pods(ns).Get(..., name, ...)\<close>;
  \<^item> \<open>NewSPDYExecutor req\<close>: the error of \<open>remotecommand.NewSPDYExecutor\<close>, if any;
  \<^item> \<open>Stream req\<close>: the bytes that \<open>exec.Stream\<close> writes to its \<open>Stdout\<close>/\<open>Stderr\<close> writer, in
    write order, and the error it returns, if any;
  \<^item> \<open>json_Unmarshal buf\<close>: the result of \<open>json.Unmarshal(buf, &resp)\<close> on a zero-valued
    \<open>resp\<close>: the error, or \<open>resp\<close> as the decoder filled it.
  Each call is taken to return; the source sets no deadline on any of them.
\<close>

record 'v World =
  Pods_Get :: "string \<Rightarrow> string \<Rightarrow> api_error + api_Pod"
  NewSPDYExecutor :: "rest_Request \<Rightarrow> string option"
  Stream :: "rest_Request \<Rightarrow> string \<times> string option"
  json_Unmarshal :: "string \<Rightarrow> string + 'v Response"

text \<open>A run-time panic of the Go runtime: \<open>index out of range [i] with length n\<close>.\<close>

datatype go_panic = IndexOutOfRange nat nat

text \<open>
  What a call of \<open>ExecuteCommand\<close> leaves behind: the returned \<open>*Response\<close> or the panic
  that unwinds through the caller, the \<open>Option\<close> that the caller's pointer refers to as
  the call left it, and the calls made on the cluster client.
\<close>

record 'v Exit =
  ret :: "go_panic + 'v Response"
  opt_after :: Option
  calls :: "call list"

section \<open>The in-memory pipe\<close>

text \<open>
  \<open>io.Pipe()\<close> (line 164), seen from the reader once the writer is closed: the bytes
  written, in write order, and how the writer was closed. \<open>writer.Close()\<close> ends the pipe
  with \<open>io.EOF\<close>; only \<open>CloseWithError\<close>, which the source never calls, ends it with
  another error.
\<close>

datatype pipe_end = EOF | ClosedWith string

record Pipe =
  written :: string
  ending :: pipe_end

text \<open>The pipe after the bytes \<open>bs\<close> were written and the deferred \<open>writer.Close()\<close> ran.\<close>

definition PipeWriter_Close :: "string \<Rightarrow> Pipe" where
  "PipeWriter_Close bs = \<lparr>written = bs, ending = EOF\<rparr>"

text \<open>\<open>ioutil.ReadAll\<close> reads to the end of the pipe and reports \<open>io.EOF\<close> as no error.\<close>

definition ioutil_ReadAll :: "Pipe \<Rightarrow> string \<times> string option" where
  "ioutil_ReadAll p =
     (written p, case ending p of EOF \<Rightarrow> None | ClosedWith e \<Rightarrow> Some e)"

section \<open>\<open>ExecuteCommand\<close>\<close>

text \<open>A failure envelope \<open>&Response{Code: -1, Success: false, Err: e}\<close>.\<close>

definition failure :: "string \<Rightarrow> 'v Response" where
  "failure e = \<lparr>Code = - 1, Success = False, Err = e, Result = None\<rparr>"

text \<open>Lines 94-96: \<open>if len(opt.NameSpace) == 0 { opt.NameSpace = "default" }\<close>.\<close>

definition default_namespace :: "Option \<Rightarrow> Option" where
  "default_namespace opt =
     (if length (NameSpace opt) = 0 then opt\<lparr>NameSpace := ''default''\<rparr> else opt)"

text \<open>Line 101: \<open>fmt.Sprintf("pods \"%s\" not found", opt.PodName)\<close>.\<close>

definition notFoundInfo :: "string \<Rightarrow> string" where
  \<open>notFoundInfo podName = ''pods "'' @ podName @ ''" not found''\<close>

text \<open>Lines 125-131: the loop over \<open>pod.Spec.Containers\<close> that sets \<open>matched\<close>.\<close>

fun matched :: "api_Container list \<Rightarrow> string \<Rightarrow> bool" where
  "matched [] n = False"
| "matched (c # cs) n = (if Name c = n then True else matched cs n)"

text \<open>Lines 140-154: the exec request for the resolved target.\<close>

definition exec_request :: "Option \<Rightarrow> rest_Request" where
  "exec_request opt =
     \<lparr>req_verb = ''POST'', req_resource = ''pods'', req_name = PodName opt,
      req_namespace = NameSpace opt, req_subresource = ''exec'',
      req_params = \<lparr>exec_Container = Container opt, exec_Command = Commands opt,
        exec_Stdin = False, exec_Stdout = True, exec_Stderr = True, exec_TTY = False\<rparr>\<rparr>"

text \<open>
  Lines 182-193: the collected bytes are decoded into a fresh \<open>Response\<close>; a decode error
  becomes a failure envelope whose text holds the raw output and the error.
\<close>

definition decode :: "'v World \<Rightarrow> string \<Rightarrow> 'v Response" where
  "decode c buffer =
     (let respString = buffer in
      case json_Unmarshal c buffer of
        Inl err \<Rightarrow> failure (''unmarsh json '' @ respString @ '' got error: '' @ err)
      | Inr resp \<Rightarrow> resp)"

text \<open>
  Lines 140-193, after the target is resolved. The goroutine of lines 165-172 runs
  \<open>exec.Stream\<close>, whose writes go into the pipe, stores the stream's error in \<open>err\<close> and
  closes the writer with \<open>Close()\<close>. \<open>ReadAll\<close> returns once the writer is closed, and
  line 174 then assigns \<open>err\<close> again: the stream's own error is never read.
\<close>

definition exec_and_collect :: "'v World \<Rightarrow> Option \<Rightarrow> call list \<Rightarrow> 'v Exit" where
  "exec_and_collect c opt cs =
     (let req = exec_request opt in
      case NewSPDYExecutor c req of
        Some err \<Rightarrow>
          \<lparr>ret = Inr (failure (''error when NewSPDYExecutor, err: '' @ err)),
           opt_after = opt, calls = cs @ [NewExecutor req]\<rparr>
      | None \<Rightarrow>
          (let (out, stream_err) = Stream c req;
               reader = PipeWriter_Close out;
               (buffer, err) = ioutil_ReadAll reader;
               cs' = cs @ [NewExecutor req, ExecStream req]
           in case err of
                Some e \<Rightarrow>
                  \<lparr>ret = Inr (failure (''read resp got error: '' @ e)),
                   opt_after = opt, calls = cs'\<rparr>
              | None \<Rightarrow> \<lparr>ret = Inr (decode c buffer), opt_after = opt, calls = cs'\<rparr>))"

text \<open>
  \<open>func (c *KubernetesClient) ExecuteCommand(opt *Option, isDestroy bool) *Response\<close>
  (lines 85-194). \<open>opt\<close> is a pointer: the assignments of lines 95 and 123 write into
  the caller's struct, which \<open>opt_after\<close> returns. \<open>pod.Spec.Containers[0]\<close> on an empty
  slice (line 123) panics. The \<open>klog\<close> calls are left out.
\<close>

definition ExecuteCommand :: "'v World \<Rightarrow> Option \<Rightarrow> bool \<Rightarrow> 'v Exit" where
  "ExecuteCommand c opt isDestroy =
     (if length (PodName opt) = 0 then
        \<lparr>ret = Inr (failure ''can not execute command with empty pod name''),
         opt_after = opt, calls = []\<rparr>
      else
        let opt1 = default_namespace opt;
            cs = [PodsGet (NameSpace opt1) (PodName opt1)]
        in case Pods_Get c (NameSpace opt1) (PodName opt1) of
             Inl err \<Rightarrow>
               if isDestroy \<and> Error err = notFoundInfo (PodName opt1) then
                 \<lparr>ret = Inr \<lparr>Code = 1, Success = True, Err = '''', Result = None\<rparr>,
                  opt_after = opt1, calls = cs\<rparr>
               else \<lparr>ret = Inr (failure (Error err)), opt_after = opt1, calls = cs\<rparr>
           | Inr pod \<Rightarrow>
               if Phase (Status pod) = PodSucceeded \<or> Phase (Status pod) = PodFailed then
                 \<lparr>ret = Inr (failure
                    (''cannot exec into a container in a completed pod; current phase is ''
                       @ Phase (Status pod))),
                  opt_after = opt1, calls = cs\<rparr>
               else if length (Container opt1) = 0 then
                 (case Containers (Spec pod) of
                    [] \<Rightarrow> \<lparr>ret = Inl (IndexOutOfRange 0 0), opt_after = opt1, calls = cs\<rparr>
                  | c0 # _ \<Rightarrow> exec_and_collect c (opt1\<lparr>Container := Name c0\<rparr>) cs)
               else if \<not> matched (Containers (Spec pod)) (Container opt1) then
                 \<lparr>ret = Inr (failure
                    (''container name: '' @ Container opt1 @ '' not found in pod ''
                       @ PodName opt1)),
                  opt_after = opt1, calls = cs\<rparr>
               else exec_and_collect c opt1 cs)"

text \<open>The namespace that a call on the cluster client names.\<close>

fun call_namespace :: "call \<Rightarrow> string" where
  "call_namespace (PodsGet ns n) = ns"
| "call_namespace (NewExecutor req) = req_namespace req"
| "call_namespace (ExecStream req) = req_namespace req"

section \<open>Concrete clusters\<close>

text \<open>
  A pod in phase \<open>ph\<close> with containers named \<open>ns\<close>, and a cluster that holds this one pod
  under every name, accepts every exec request, streams the bytes \<open>out\<close> and decodes
  with \<open>dec\<close>.
\<close>

definition mk_pod :: "PodPhase \<Rightarrow> string list \<Rightarrow> api_Pod" where
  "mk_pod ph ns =
     \<lparr>Spec = \<lparr>Containers = map (\<lambda>n. \<lparr>Name = n\<rparr>) ns\<rparr>, Status = \<lparr>Phase = ph\<rparr>\<rparr>"

definition cluster_with ::
  "api_Pod \<Rightarrow> string \<Rightarrow> (string \<Rightarrow> string + 'v Response) \<Rightarrow> 'v World" where
  "cluster_with pod out dec =
     \<lparr>Pods_Get = (\<lambda>ns n. Inr pod), NewSPDYExecutor = (\<lambda>req. None),
      Stream = (\<lambda>req. (out, None)), json_Unmarshal = dec\<rparr>"

text \<open>
  A cluster without pods, whose API server answers every fetch with the status
  \<open>NotFound\<close> and the message \<open>pods "<name>" not found\<close>.
\<close>

definition empty_cluster :: "'v World" where
  \<open>empty_cluster =
     \<lparr>Pods_Get = (\<lambda>ns n. Inl \<lparr>Error = ''pods "'' @ n @ ''" not found'',
        Reason = ''NotFound''\<rparr>),
      NewSPDYExecutor = (\<lambda>req. None), Stream = (\<lambda>req. ([], None)),
      json_Unmarshal = (\<lambda>buf. Inl ''unexpected end of JSON input'')\<rparr>\<close>

text \<open>
  A cluster without pods that answers every fetch with a bare 404: the client library
  makes of it an error with the reason \<open>NotFound\<close> and the text
  \<open>the server could not find the requested resource (get pods <name>)\<close>.
\<close>

definition bare_404_cluster :: "'v World" where
  "bare_404_cluster =
     \<lparr>Pods_Get = (\<lambda>ns n. Inl
        \<lparr>Error = ''the server could not find the requested resource (get pods '' @ n @ '')'',
         Reason = ''NotFound''\<rparr>),
      NewSPDYExecutor = (\<lambda>req. None), Stream = (\<lambda>req. ([], None)),
      json_Unmarshal = (\<lambda>buf. Inl ''unexpected end of JSON input'')\<rparr>"

text \<open>A request for the command \<open>cat /status.json\<close>.\<close>

definition request :: "string \<Rightarrow> string \<Rightarrow> string \<Rightarrow> Option" where
  "request ns pod container =
     \<lparr>NameSpace = ns, PodName = pod, Container = container,
      Commands = [''cat'', ''/status.json'']\<rparr>"

text \<open>A decoder that rejects every buffer, and one that accepts exactly one buffer.\<close>

definition reject_all :: "string \<Rightarrow> string + 'v Response" where
  "reject_all buf = Inl ''invalid character''"

definition accept_only :: "string \<Rightarrow> 'v Response \<Rightarrow> string \<Rightarrow> string + 'v Response" where
  "accept_only good r buf = (if buf = good then Inr r else Inl ''invalid character'')"




section \<open>Properties of the parts\<close>

lemma default_namespace_fields [simp]:
  "PodName (default_namespace opt) = PodName opt"
  "Container (default_namespace opt) = Container opt"
  "Commands (default_namespace opt) = Commands opt"
  "NameSpace (default_namespace opt) = (if NameSpace opt = [] then ''default'' else NameSpace opt)"
  by (simp_all add: default_namespace_def)

lemma matched_iff: "matched cs n \<longleftrightarrow> n \<in> Name ` set cs"
  by (induction cs) auto

lemma ReadAll_after_Close: "ioutil_ReadAll (PipeWriter_Close bs) = (bs, None)"
  by (simp add: ioutil_ReadAll_def PipeWriter_Close_def)

lemma exec_and_collect_cases:
  "exec_and_collect c opt cs =
     (case NewSPDYExecutor c (exec_request opt) of
        Some err \<Rightarrow>
          \<lparr>ret = Inr (failure (''error when NewSPDYExecutor, err: '' @ err)),
           opt_after = opt, calls = cs @ [NewExecutor (exec_request opt)]\<rparr>
      | None \<Rightarrow>
          \<lparr>ret = Inr (decode c (fst (Stream c (exec_request opt)))), opt_after = opt,
           calls = cs @ [NewExecutor (exec_request opt), ExecStream (exec_request opt)]\<rparr>)"
  by (simp add: exec_and_collect_def Let_def ReadAll_after_Close split: option.splits prod.splits)

lemma exec_and_collect_ret: "\<exists>r. ret (exec_and_collect c opt cs) = Inr r"
  by (simp add: exec_and_collect_cases split: option.splits)

lemma exec_and_collect_opt: "opt_after (exec_and_collect c opt cs) = opt"
  by (simp add: exec_and_collect_cases split: option.splits)

text \<open>Once the exec stream is open, the result is the decoding of what it wrote.\<close>

lemma ExecuteCommand_stream:
  assumes "ExecStream req \<in> set (calls (ExecuteCommand c opt d))"
  shows "ret (ExecuteCommand c opt d) = Inr (decode c (fst (Stream c req)))"
  using assms
  by (auto simp add: ExecuteCommand_def Let_def exec_and_collect_cases
      split: if_splits sum.splits list.splits option.splits)

text \<open>
  The only panic of \<open>ExecuteCommand\<close> is the index of line 123: it needs a fetched pod
  that is not in a terminal phase and has no container, and a request that names none.
\<close>

lemma exec_and_collect_no_panic: "ret (exec_and_collect c opt cs) \<noteq> Inl p"
  using exec_and_collect_ret [of c opt cs] by auto

lemma ExecuteCommand_panics_iff:
  "(\<exists>p. ret (ExecuteCommand c opt isDestroy) = Inl p) \<longleftrightarrow>
     PodName opt \<noteq> [] \<and> Container opt = [] \<and>
     (\<exists>pod. Pods_Get c (NameSpace (default_namespace opt)) (PodName opt) = Inr pod
        \<and> Phase (Status pod) \<noteq> PodSucceeded \<and> Phase (Status pod) \<noteq> PodFailed
        \<and> Containers (Spec pod) = [])"
  by (auto simp add: ExecuteCommand_def Let_def exec_and_collect_no_panic
      split: sum.splits list.splits)

text \<open>The text of line 135 holds the container's name and the pod's name.\<close>

lemma not_found_text_names_both:
  "sublist cn (''container name: '' @ cn @ '' not found in pod '' @ pn)
   \<and> sublist pn (''container name: '' @ cn @ '' not found in pod '' @ pn)"
proof
  show "sublist cn (''container name: '' @ cn @ '' not found in pod '' @ pn)"
    by (rule sublist_appendI)
  have "sublist pn ((''container name: '' @ cn @ '' not found in pod '') @ pn @ [])"
    by (rule sublist_appendI)
  then show "sublist pn (''container name: '' @ cn @ '' not found in pod '' @ pn)"
    by simp
qed

lemmas concrete_defs = request_def cluster_with_def mk_pod_def empty_cluster_def reject_all_def
  accept_only_def bare_404_cluster_def

section \<open>The claims\<close>

text \<open>
  C1. The claim: for every \<open>Option\<close> and destroy flag, \<open>ExecuteCommand\<close> returns a
  \<open>Response\<close> and never panics. On a cluster whose pod \<open>web\<close> is running and declares no
  container, the request that names no container does not return: line 123 indexes the
  empty slice and the call panics.
\<close>

theorem ExecuteCommand_panics_without_containers:
  "ret (ExecuteCommand (cluster_with (mk_pod ''Running'' []) ''ok'' reject_all :: string World)
         (request ''prod'' ''web'' '''') False) = Inl (IndexOutOfRange 0 0)"
  by (simp add: ExecuteCommand_def Let_def concrete_defs default_namespace_def PodSucceeded_def
      PodFailed_def)

text \<open>
  C2. For every request whose pod name is the empty string, \<open>ExecuteCommand\<close> returns the
  failure envelope with code \<open>-1\<close>, \<open>success = false\<close> and the error text
  \<open>can not execute command with empty pod name\<close>, and it makes no call on the cluster
  client: no pod fetch and no exec request.
\<close>

theorem ExecuteCommand_empty_pod_name:
  assumes "PodName opt = []"
  shows "ret (ExecuteCommand c opt isDestroy) =
           Inr \<lparr>Code = - 1, Success = False,
                Err = ''can not execute command with empty pod name'', Result = None\<rparr>
         \<and> calls (ExecuteCommand c opt isDestroy) = []"
  using assms by (simp add: ExecuteCommand_def failure_def)

theorem ExecuteCommand_empty_pod_name_witness:
  "PodName (request ''prod'' '''' ''app'') = []
   \<and> ret (ExecuteCommand (empty_cluster :: string World) (request ''prod'' '''' ''app'') True) =
       Inr \<lparr>Code = - 1, Success = False,
            Err = ''can not execute command with empty pod name'', Result = None\<rparr>
   \<and> calls (ExecuteCommand (empty_cluster :: string World) (request ''prod'' '''' ''app'') True) = []"
proof -
  have h: "PodName (request ''prod'' '''' ''app'') = []"
    by (simp add: request_def)
  show ?thesis
    using ExecuteCommand_empty_pod_name [OF h, of "empty_cluster :: string World" True] h
    by simp
qed

text \<open>
  C3. For every request with an empty namespace and a non-empty pod name, the first call
  is the pod fetch in namespace \<open>default\<close>, and every call of the run, the exec request
  and the exec stream included, names the namespace \<open>default\<close>.
\<close>

theorem ExecuteCommand_default_namespace:
  assumes "NameSpace opt = []" and "PodName opt \<noteq> []"
  shows "calls (ExecuteCommand c opt isDestroy) \<noteq> []
         \<and> hd (calls (ExecuteCommand c opt isDestroy)) = PodsGet ''default'' (PodName opt)
         \<and> (\<forall>x \<in> set (calls (ExecuteCommand c opt isDestroy)). call_namespace x = ''default'')"
  using assms
  by (auto simp add: ExecuteCommand_def Let_def exec_and_collect_cases
      exec_request_def split: sum.splits list.splits option.splits)

theorem ExecuteCommand_default_namespace_witness:
  "NameSpace (request '''' ''web'' '''') = [] \<and> PodName (request '''' ''web'' '''') \<noteq> []
   \<and> map call_namespace
        (calls (ExecuteCommand
          (cluster_with (mk_pod ''Running'' [''app'', ''sidecar'']) ''ok'' reject_all :: string World)
          (request '''' ''web'' '''') False))
       = [''default'', ''default'', ''default'']
   \<and> hd (calls (ExecuteCommand
          (cluster_with (mk_pod ''Running'' [''app'', ''sidecar'']) ''ok'' reject_all :: string World)
          (request '''' ''web'' '''') False))
       = PodsGet ''default'' ''web''"
proof -
  have h1: "NameSpace (request '''' ''web'' '''') = []"
    and h2: "PodName (request '''' ''web'' '''') \<noteq> []"
    by (simp_all add: request_def)
  have run: "calls (ExecuteCommand
          (cluster_with (mk_pod ''Running'' [''app'', ''sidecar'']) ''ok'' reject_all :: string World)
          (request '''' ''web'' '''') False)
     = [PodsGet ''default'' ''web'',
        NewExecutor (exec_request \<lparr>NameSpace = ''default'', PodName = ''web'', Container = ''app'',
          Commands = [''cat'', ''/status.json'']\<rparr>),
        ExecStream (exec_request \<lparr>NameSpace = ''default'', PodName = ''web'', Container = ''app'',
          Commands = [''cat'', ''/status.json'']\<rparr>)]"
    by (simp add: ExecuteCommand_def Let_def exec_and_collect_cases concrete_defs
        default_namespace_def PodSucceeded_def PodFailed_def)
  show ?thesis
    using ExecuteCommand_default_namespace [OF h1 h2,
        of "cluster_with (mk_pod ''Running'' [''app'', ''sidecar'']) ''ok'' reject_all :: string World"
           False] h1 h2
    by (simp add: run exec_request_def)
qed

text \<open>
  C4. The claim: whenever the pod fetch reports that the pod does not exist, destroy mode
  returns code \<open>1\<close> and \<open>success = true\<close>. Line 102 recognises the report by its text only,
  which must equal \<open>pods "<name>" not found\<close>. A fetch answered with a bare 404 reports
  the pod as not found with another text, and destroy mode returns the failure envelope.
\<close>

theorem ExecuteCommand_misses_not_found_report:
  "IsNotFound
     \<lparr>Error = ''the server could not find the requested resource (get pods web)'',
      Reason = ''NotFound''\<rparr>
   \<and> Pods_Get (bare_404_cluster :: string World)
        (NameSpace (default_namespace (request ''prod'' ''web'' ''app'')))
        (PodName (request ''prod'' ''web'' ''app'')) =
       Inl \<lparr>Error = ''the server could not find the requested resource (get pods web)'',
            Reason = ''NotFound''\<rparr>
   \<and> ret (ExecuteCommand (bare_404_cluster :: string World)
        (request ''prod'' ''web'' ''app'') True) =
       Inr \<lparr>Code = - 1, Success = False,
            Err = ''the server could not find the requested resource (get pods web)'',
            Result = None\<rparr>"
  by (simp add: ExecuteCommand_def Let_def bare_404_cluster_def request_def failure_def
      notFoundInfo_def IsNotFound_def StatusReasonNotFound_def)

text \<open>
  C4, amended. When the pod fetch fails with an error whose text is exactly
  \<open>pods "<name>" not found\<close> for the requested pod name, \<open>ExecuteCommand\<close> returns code \<open>1\<close>,
  \<open>success = true\<close> and an empty error in destroy mode. In every other case of a failed
  fetch, that is outside destroy mode or with any other error text, a not-found report
  with another text included, it returns the failure envelope with code \<open>-1\<close>,
  \<open>success = false\<close> and the error's text. The pod fetch is the only call.
\<close>

theorem ExecuteCommand_pod_fetch_error:
  assumes \<open>PodName opt \<noteq> []\<close>
    and \<open>Pods_Get c (NameSpace (default_namespace opt)) (PodName opt) = Inl e\<close>
  shows \<open>ret (ExecuteCommand c opt isDestroy) =
           Inr (if isDestroy \<and> Error e = ''pods "'' @ PodName opt @ ''" not found''
                then \<lparr>Code = 1, Success = True, Err = '''', Result = None\<rparr>
                else \<lparr>Code = - 1, Success = False, Err = Error e, Result = None\<rparr>)
         \<and> calls (ExecuteCommand c opt isDestroy) =
             [PodsGet (NameSpace (default_namespace opt)) (PodName opt)]\<close>
  using assms
  by (simp add: ExecuteCommand_def Let_def failure_def notFoundInfo_def)

theorem ExecuteCommand_pod_fetch_error_witness:
  \<open>PodName (request ''prod'' ''web'' ''app'') \<noteq> []
   \<and> Pods_Get (empty_cluster :: string World)
        (NameSpace (default_namespace (request ''prod'' ''web'' ''app'')))
        (PodName (request ''prod'' ''web'' ''app'')) =
       Inl \<lparr>Error = ''pods "web" not found'', Reason = ''NotFound''\<rparr>
   \<and> ret (ExecuteCommand (empty_cluster :: string World) (request ''prod'' ''web'' ''app'') True) =
       Inr \<lparr>Code = 1, Success = True, Err = '''', Result = None\<rparr>
   \<and> ret (ExecuteCommand (empty_cluster :: string World) (request ''prod'' ''web'' ''app'') False) =
       Inr \<lparr>Code = - 1, Success = False, Err = ''pods "web" not found'', Result = None\<rparr>
   \<and> Pods_Get (bare_404_cluster :: string World)
        (NameSpace (default_namespace (request ''prod'' ''web'' ''app'')))
        (PodName (request ''prod'' ''web'' ''app'')) =
       Inl \<lparr>Error = ''the server could not find the requested resource (get pods web)'',
            Reason = ''NotFound''\<rparr>
   \<and> ret (ExecuteCommand (bare_404_cluster :: string World)
        (request ''prod'' ''web'' ''app'') True) =
       Inr \<lparr>Code = - 1, Success = False,
            Err = ''the server could not find the requested resource (get pods web)'',
            Result = None\<rparr>
   \<and> calls (ExecuteCommand (empty_cluster :: string World) (request ''prod'' ''web'' ''app'') True)
       = [PodsGet ''prod'' ''web'']\<close>
proof -
  have h1: "PodName (request ''prod'' ''web'' ''app'') \<noteq> []"
    by (simp add: request_def)
  have g1: \<open>Pods_Get (empty_cluster :: string World)
        (NameSpace (default_namespace (request ''prod'' ''web'' ''app'')))
        (PodName (request ''prod'' ''web'' ''app'')) =
       Inl \<lparr>Error = ''pods "web" not found'', Reason = ''NotFound''\<rparr>\<close>
    by (simp add: empty_cluster_def request_def)
  have g2: "Pods_Get (bare_404_cluster :: string World)
        (NameSpace (default_namespace (request ''prod'' ''web'' ''app'')))
        (PodName (request ''prod'' ''web'' ''app'')) =
       Inl \<lparr>Error = ''the server could not find the requested resource (get pods web)'',
            Reason = ''NotFound''\<rparr>"
    by (simp add: bare_404_cluster_def request_def)
  show ?thesis
    using ExecuteCommand_pod_fetch_error [OF h1 g1, of True]
      ExecuteCommand_pod_fetch_error [OF h1 g1, of False]
      ExecuteCommand_pod_fetch_error [OF h1 g2, of True] h1 g1 g2
    by (simp add: request_def)
qed

text \<open>
  C5. When the fetched pod is in phase \<open>Succeeded\<close> or \<open>Failed\<close>, \<open>ExecuteCommand\<close> returns
  the failure envelope (code \<open>-1\<close>, \<open>success = false\<close>) whatever container the request names,
  and the pod fetch is the only call: no exec request is built and no stream is opened.
\<close>

theorem ExecuteCommand_completed_pod:
  assumes "PodName opt \<noteq> []"
    and "Pods_Get c (NameSpace (default_namespace opt)) (PodName opt) = Inr pod"
    and "Phase (Status pod) = PodSucceeded \<or> Phase (Status pod) = PodFailed"
  shows "ret (ExecuteCommand c opt isDestroy) =
           Inr \<lparr>Code = - 1, Success = False,
                Err = ''cannot exec into a container in a completed pod; current phase is ''
                        @ Phase (Status pod),
                Result = None\<rparr>
         \<and> calls (ExecuteCommand c opt isDestroy) =
             [PodsGet (NameSpace (default_namespace opt)) (PodName opt)]"
  using assms
  by (auto simp add: ExecuteCommand_def Let_def failure_def)

theorem ExecuteCommand_completed_pod_witness:
  "PodName (request ''prod'' ''job'' ''nosuch'') \<noteq> []
   \<and> Pods_Get (cluster_with (mk_pod ''Succeeded'' [''app'']) ''ok'' reject_all :: string World)
        (NameSpace (default_namespace (request ''prod'' ''job'' ''nosuch'')))
        (PodName (request ''prod'' ''job'' ''nosuch'')) = Inr (mk_pod ''Succeeded'' [''app''])
   \<and> Phase (Status (mk_pod ''Succeeded'' [''app''])) = PodSucceeded
   \<and> ret (ExecuteCommand
        (cluster_with (mk_pod ''Succeeded'' [''app'']) ''ok'' reject_all :: string World)
        (request ''prod'' ''job'' ''nosuch'') False) =
       Inr \<lparr>Code = - 1, Success = False,
            Err = ''cannot exec into a container in a completed pod; current phase is Succeeded'',
            Result = None\<rparr>
   \<and> calls (ExecuteCommand
        (cluster_with (mk_pod ''Succeeded'' [''app'']) ''ok'' reject_all :: string World)
        (request ''prod'' ''job'' ''nosuch'') False) = [PodsGet ''prod'' ''job'']"
proof -
  have h1: "PodName (request ''prod'' ''job'' ''nosuch'') \<noteq> []"
    by (simp add: request_def)
  have h2: "Pods_Get (cluster_with (mk_pod ''Succeeded'' [''app'']) ''ok'' reject_all :: string World)
        (NameSpace (default_namespace (request ''prod'' ''job'' ''nosuch'')))
        (PodName (request ''prod'' ''job'' ''nosuch'')) = Inr (mk_pod ''Succeeded'' [''app''])"
    by (simp add: cluster_with_def)
  have h3: "Phase (Status (mk_pod ''Succeeded'' [''app''])) = PodSucceeded"
    by (simp add: mk_pod_def PodSucceeded_def)
  have h3': "Phase (Status (mk_pod ''Succeeded'' [''app''])) = PodSucceeded
      \<or> Phase (Status (mk_pod ''Succeeded'' [''app''])) = PodFailed"
    using h3 by simp
  show ?thesis
    using ExecuteCommand_completed_pod [OF h1 h2 h3', of False] h1 h2 h3
    by (simp add: request_def mk_pod_def)
qed

text \<open>
  C6. The claim: whenever the requested container equals none of the fetched pod's
  container names, the error text names the requested container and the pod. The test
  of the phase (line 113) comes before the test of the container (lines 124-138): for a
  pod in phase \<open>Failed\<close> the error text is the completed-pod message, which names neither
  the container \<open>nosuch\<close> nor the pod \<open>batch\<close>.
\<close>

theorem ExecuteCommand_completed_pod_hides_container:
  "Container (request ''prod'' ''batch'' ''nosuch'') \<noteq> []
   \<and> Container (request ''prod'' ''batch'' ''nosuch'')
        \<notin> Name ` set (Containers (Spec (mk_pod ''Failed'' [''app''])))
   \<and> ret (ExecuteCommand (cluster_with (mk_pod ''Failed'' [''app'']) ''ok'' reject_all :: string World)
        (request ''prod'' ''batch'' ''nosuch'') False) =
       Inr \<lparr>Code = - 1, Success = False,
            Err = ''cannot exec into a container in a completed pod; current phase is Failed'',
            Result = None\<rparr>
   \<and> \<not> sublist ''nosuch''
        ''cannot exec into a container in a completed pod; current phase is Failed''
   \<and> \<not> sublist ''batch''
        ''cannot exec into a container in a completed pod; current phase is Failed''"
proof -
  have "ret (ExecuteCommand (cluster_with (mk_pod ''Failed'' [''app'']) ''ok'' reject_all :: string World)
        (request ''prod'' ''batch'' ''nosuch'') False) =
       Inr \<lparr>Code = - 1, Success = False,
            Err = ''cannot exec into a container in a completed pod; current phase is Failed'',
            Result = None\<rparr>"
    by (simp add: ExecuteCommand_def Let_def concrete_defs default_namespace_def failure_def
        PodSucceeded_def PodFailed_def)
  moreover have "\<not> sublist ''nosuch''
        ''cannot exec into a container in a completed pod; current phase is Failed''"
    by (simp add: sublist_Cons_right)
  moreover have "\<not> sublist ''batch''
        ''cannot exec into a container in a completed pod; current phase is Failed''"
    by (simp add: sublist_Cons_right)
  moreover have "Container (request ''prod'' ''batch'' ''nosuch'') \<noteq> []
     \<and> Container (request ''prod'' ''batch'' ''nosuch'')
        \<notin> Name ` set (Containers (Spec (mk_pod ''Failed'' [''app''])))"
    by (simp add: request_def mk_pod_def)
  ultimately show ?thesis by simp
qed

text \<open>
  C6, amended. A named container is compared with the names of the fetched pod's
  containers by string equality, which distinguishes upper and lower case. When it
  equals none of them, \<open>ExecuteCommand\<close> returns a failure envelope (code \<open>-1\<close>,
  \<open>success = false\<close>) and the pod fetch is the only call: no exec request is built and
  no stream is opened. The error text names the requested container and the pod when the
  pod is not in a terminal phase; for a pod in phase \<open>Succeeded\<close> or \<open>Failed\<close> it is the
  completed-pod message. When the name equals one of them and the pod is not in a
  terminal phase, the run goes on to the exec request for that container.
\<close>

theorem ExecuteCommand_container_not_found:
  assumes "PodName opt \<noteq> []" and "Container opt \<noteq> []"
    and "Pods_Get c (NameSpace (default_namespace opt)) (PodName opt) = Inr pod"
  shows "(Container opt \<notin> Name ` set (Containers (Spec pod)) \<longrightarrow>
            calls (ExecuteCommand c opt isDestroy) =
              [PodsGet (NameSpace (default_namespace opt)) (PodName opt)]
            \<and> (\<exists>r. ret (ExecuteCommand c opt isDestroy) = Inr r
                 \<and> Code r = - 1 \<and> \<not> Success r \<and> Result r = None
                 \<and> Err r =
                     (if Phase (Status pod) = PodSucceeded \<or> Phase (Status pod) = PodFailed
                      then ''cannot exec into a container in a completed pod; current phase is ''
                             @ Phase (Status pod)
                      else ''container name: '' @ Container opt @ '' not found in pod ''
                             @ PodName opt)
                 \<and> (Phase (Status pod) \<noteq> PodSucceeded \<and> Phase (Status pod) \<noteq> PodFailed \<longrightarrow>
                      sublist (Container opt) (Err r) \<and> sublist (PodName opt) (Err r))))
         \<and> (Container opt \<in> Name ` set (Containers (Spec pod))
              \<and> Phase (Status pod) \<noteq> PodSucceeded \<and> Phase (Status pod) \<noteq> PodFailed \<longrightarrow>
            take 2 (calls (ExecuteCommand c opt isDestroy)) =
              [PodsGet (NameSpace (default_namespace opt)) (PodName opt),
               NewExecutor (exec_request (default_namespace opt))]
            \<and> exec_Container (req_params (exec_request (default_namespace opt))) = Container opt)"
proof (intro conjI impI)
  assume absent: "Container opt \<notin> Name ` set (Containers (Spec pod))"
  show "calls (ExecuteCommand c opt isDestroy) =
      [PodsGet (NameSpace (default_namespace opt)) (PodName opt)]"
    using assms absent by (simp add: ExecuteCommand_def Let_def matched_iff)
  show "\<exists>r. ret (ExecuteCommand c opt isDestroy) = Inr r
       \<and> Code r = - 1 \<and> \<not> Success r \<and> Result r = None
       \<and> Err r =
           (if Phase (Status pod) = PodSucceeded \<or> Phase (Status pod) = PodFailed
            then ''cannot exec into a container in a completed pod; current phase is ''
                   @ Phase (Status pod)
            else ''container name: '' @ Container opt @ '' not found in pod '' @ PodName opt)
       \<and> (Phase (Status pod) \<noteq> PodSucceeded \<and> Phase (Status pod) \<noteq> PodFailed \<longrightarrow>
            sublist (Container opt) (Err r) \<and> sublist (PodName opt) (Err r))"
    using assms absent not_found_text_names_both [of "Container opt" "PodName opt"]
    by (simp add: ExecuteCommand_def Let_def matched_iff failure_def)
next
  assume present: "Container opt \<in> Name ` set (Containers (Spec pod))
    \<and> Phase (Status pod) \<noteq> PodSucceeded \<and> Phase (Status pod) \<noteq> PodFailed"
  show "take 2 (calls (ExecuteCommand c opt isDestroy)) =
      [PodsGet (NameSpace (default_namespace opt)) (PodName opt),
       NewExecutor (exec_request (default_namespace opt))]"
    using assms present
    by (simp add: ExecuteCommand_def Let_def matched_iff exec_and_collect_cases
        split: option.splits)
  show "exec_Container (req_params (exec_request (default_namespace opt))) = Container opt"
    by (simp add: exec_request_def)
qed

theorem ExecuteCommand_container_not_found_witness:
  "PodName (request ''prod'' ''web'' ''App'') \<noteq> [] \<and> Container (request ''prod'' ''web'' ''App'') \<noteq> []
   \<and> Pods_Get (cluster_with (mk_pod ''Running'' [''app'', ''sidecar'']) ''ok'' reject_all :: string World)
        (NameSpace (default_namespace (request ''prod'' ''web'' ''App'')))
        (PodName (request ''prod'' ''web'' ''App'')) = Inr (mk_pod ''Running'' [''app'', ''sidecar''])
   \<and> Phase (Status (mk_pod ''Running'' [''app'', ''sidecar''])) \<noteq> PodSucceeded
   \<and> Phase (Status (mk_pod ''Running'' [''app'', ''sidecar''])) \<noteq> PodFailed
   \<and> Container (request ''prod'' ''web'' ''App'')
        \<notin> Name ` set (Containers (Spec (mk_pod ''Running'' [''app'', ''sidecar''])))
   \<and> ret (ExecuteCommand
        (cluster_with (mk_pod ''Running'' [''app'', ''sidecar'']) ''ok'' reject_all :: string World)
        (request ''prod'' ''web'' ''App'') False) =
       Inr \<lparr>Code = - 1, Success = False,
            Err = ''container name: App not found in pod web'', Result = None\<rparr>
   \<and> calls (ExecuteCommand
        (cluster_with (mk_pod ''Running'' [''app'', ''sidecar'']) ''ok'' reject_all :: string World)
        (request ''prod'' ''web'' ''App'') False) = [PodsGet ''prod'' ''web'']
   \<and> Container (request ''prod'' ''web'' ''sidecar'')
        \<in> Name ` set (Containers (Spec (mk_pod ''Running'' [''app'', ''sidecar''])))
   \<and> take 2 (calls (ExecuteCommand
        (cluster_with (mk_pod ''Running'' [''app'', ''sidecar'']) ''ok'' reject_all :: string World)
        (request ''prod'' ''web'' ''sidecar'') False)) =
       [PodsGet ''prod'' ''web'', NewExecutor (exec_request (request ''prod'' ''web'' ''sidecar''))]"
proof -
  let ?c = "cluster_with (mk_pod ''Running'' [''app'', ''sidecar'']) ''ok'' reject_all :: string World"
  let ?pod = "mk_pod ''Running'' [''app'', ''sidecar'']"
  have p: "Phase (Status ?pod) \<noteq> PodSucceeded" "Phase (Status ?pod) \<noteq> PodFailed"
    by (simp_all add: mk_pod_def PodSucceeded_def PodFailed_def)
  have names: "Name ` set (Containers (Spec ?pod)) = {''app'', ''sidecar''}"
    by (simp add: mk_pod_def)
  have a1: "PodName (request ''prod'' ''web'' ''App'') \<noteq> []"
    and a2: "Container (request ''prod'' ''web'' ''App'') \<noteq> []"
    and a3: "Pods_Get ?c (NameSpace (default_namespace (request ''prod'' ''web'' ''App'')))
        (PodName (request ''prod'' ''web'' ''App'')) = Inr ?pod"
    and a4: "Container (request ''prod'' ''web'' ''App'') \<notin> Name ` set (Containers (Spec ?pod))"
    by (simp_all add: names) (simp_all add: request_def cluster_with_def)
  have b1: "PodName (request ''prod'' ''web'' ''sidecar'') \<noteq> []"
    and b2: "Container (request ''prod'' ''web'' ''sidecar'') \<noteq> []"
    and b3: "Pods_Get ?c (NameSpace (default_namespace (request ''prod'' ''web'' ''sidecar'')))
        (PodName (request ''prod'' ''web'' ''sidecar'')) = Inr ?pod"
    and b4: "Container (request ''prod'' ''web'' ''sidecar'') \<in> Name ` set (Containers (Spec ?pod))"
    by (simp_all add: names) (simp_all add: request_def cluster_with_def)
  have d: "default_namespace (request ''prod'' ''web'' ''sidecar'') = request ''prod'' ''web'' ''sidecar''"
    by (simp add: default_namespace_def request_def)
  have A: "ret (ExecuteCommand ?c (request ''prod'' ''web'' ''App'') False) =
       Inr \<lparr>Code = - 1, Success = False,
            Err = ''container name: App not found in pod web'', Result = None\<rparr>
     \<and> calls (ExecuteCommand ?c (request ''prod'' ''web'' ''App'') False) = [PodsGet ''prod'' ''web'']"
    using ExecuteCommand_container_not_found [OF a1 a2 a3, of False] a4 p
    by (auto simp add: request_def)
  have B: "take 2 (calls (ExecuteCommand ?c (request ''prod'' ''web'' ''sidecar'') False)) =
       [PodsGet ''prod'' ''web'', NewExecutor (exec_request (request ''prod'' ''web'' ''sidecar''))]"
    using ExecuteCommand_container_not_found [OF b1 b2 b3, of False] b4 p
    by (simp add: d) (simp add: request_def)
  show ?thesis
    using a1 a2 a3 a4 b4 p A B by simp
qed




text \<open>
  C8. When the exec stream was opened and the decoder rejects the collected bytes with
  the error \<open>e\<close>, \<open>ExecuteCommand\<close> returns the failure envelope with code \<open>-1\<close> and
  \<open>success = false\<close>; its error text is \<open>unmarsh json <raw output> got error: <e>\<close>, and its
  result is nil: the raw output appears in the error text only.
\<close>

theorem ExecuteCommand_decode_failure:
  assumes "ExecStream req \<in> set (calls (ExecuteCommand c opt isDestroy))"
    and "json_Unmarshal c (fst (Stream c req)) = Inl e"
  shows "ret (ExecuteCommand c opt isDestroy) =
           Inr \<lparr>Code = - 1, Success = False,
                Err = ''unmarsh json '' @ fst (Stream c req) @ '' got error: '' @ e,
                Result = None\<rparr>"
  using ExecuteCommand_stream [OF assms(1)] assms(2) by (simp add: decode_def failure_def)

theorem ExecuteCommand_decode_failure_witness:
  "ExecStream (exec_request (request ''prod'' ''web'' ''app''))
     \<in> set (calls (ExecuteCommand
          (cluster_with (mk_pod ''Running'' [''app'']) ''hello'' reject_all :: string World)
          (request ''prod'' ''web'' ''app'') False))
   \<and> json_Unmarshal
        (cluster_with (mk_pod ''Running'' [''app'']) ''hello'' reject_all :: string World)
        (fst (Stream
          (cluster_with (mk_pod ''Running'' [''app'']) ''hello'' reject_all :: string World)
          (exec_request (request ''prod'' ''web'' ''app''))))
       = Inl ''invalid character''
   \<and> ret (ExecuteCommand
          (cluster_with (mk_pod ''Running'' [''app'']) ''hello'' reject_all :: string World)
          (request ''prod'' ''web'' ''app'') False)
       = Inr \<lparr>Code = - 1, Success = False,
              Err = ''unmarsh json hello got error: invalid character'', Result = None\<rparr>"
proof -
  let ?c = "cluster_with (mk_pod ''Running'' [''app'']) ''hello'' reject_all :: string World"
  have h1: "ExecStream (exec_request (request ''prod'' ''web'' ''app''))
     \<in> set (calls (ExecuteCommand ?c (request ''prod'' ''web'' ''app'') False))"
    by (simp add: ExecuteCommand_def Let_def exec_and_collect_cases concrete_defs
        default_namespace_def PodSucceeded_def PodFailed_def)
  have h2: "json_Unmarshal ?c (fst (Stream ?c (exec_request (request ''prod'' ''web'' ''app''))))
      = Inl ''invalid character''"
    by (simp add: cluster_with_def reject_all_def)
  have out: "fst (Stream ?c (exec_request (request ''prod'' ''web'' ''app''))) = ''hello''"
    by (simp add: cluster_with_def)
  show ?thesis
    using ExecuteCommand_decode_failure [OF h1 h2] h1 h2 by (simp add: out)
qed

text \<open>
  C9. The claim: \<open>ExecuteCommand\<close> never changes a field of the caller's \<open>Option\<close>. The
  source has no local copy: \<open>opt\<close> is the caller's pointer, and lines 95 and 123 assign
  through it. After the call on a request with empty namespace and container, both
  fields of the caller's struct hold the defaults.
\<close>

theorem ExecuteCommand_mutates_Option:
  "NameSpace (opt_after (ExecuteCommand
      (cluster_with (mk_pod ''Running'' [''app'']) ''ok'' reject_all :: string World)
      (request '''' ''web'' '''') False)) \<noteq> NameSpace (request '''' ''web'' '''')
   \<and> Container (opt_after (ExecuteCommand
      (cluster_with (mk_pod ''Running'' [''app'']) ''ok'' reject_all :: string World)
      (request '''' ''web'' '''') False)) \<noteq> Container (request '''' ''web'' '''')"
  by (simp add: ExecuteCommand_def Let_def exec_and_collect_opt concrete_defs
      default_namespace_def PodSucceeded_def PodFailed_def)

text \<open>
  C9, amended. \<open>ExecuteCommand\<close> writes its defaults into the caller's \<open>Option\<close> and changes
  nothing else: the pod name and the commands are never changed; the namespace is changed
  only from the empty string to \<open>default\<close>, exactly when the pod name is non-empty; a
  non-empty container name is kept, and an empty one is changed only to the name of the
  first container of a fetched pod that is not in a terminal phase.
\<close>

theorem ExecuteCommand_writes_defaults_only:
  "PodName (opt_after (ExecuteCommand c opt isDestroy)) = PodName opt
   \<and> Commands (opt_after (ExecuteCommand c opt isDestroy)) = Commands opt
   \<and> NameSpace (opt_after (ExecuteCommand c opt isDestroy)) =
       (if PodName opt \<noteq> [] \<and> NameSpace opt = [] then ''default'' else NameSpace opt)
   \<and> (Container opt \<noteq> [] \<longrightarrow>
        Container (opt_after (ExecuteCommand c opt isDestroy)) = Container opt)
   \<and> (Container (opt_after (ExecuteCommand c opt isDestroy)) \<noteq> Container opt \<longrightarrow>
        PodName opt \<noteq> [] \<and>
        (\<exists>pod. Pods_Get c (NameSpace (default_namespace opt)) (PodName opt) = Inr pod
           \<and> Phase (Status pod) \<noteq> PodSucceeded \<and> Phase (Status pod) \<noteq> PodFailed
           \<and> Containers (Spec pod) \<noteq> []
           \<and> Container (opt_after (ExecuteCommand c opt isDestroy)) =
               Name (hd (Containers (Spec pod)))))"
  by (auto simp add: ExecuteCommand_def Let_def exec_and_collect_opt
      split: sum.splits list.splits)

theorem ExecuteCommand_writes_defaults_only_witness:
  "Container (request ''prod'' ''web'' ''sidecar'') \<noteq> []
   \<and> opt_after (ExecuteCommand
        (cluster_with (mk_pod ''Running'' [''app'', ''sidecar'']) ''ok'' reject_all :: string World)
        (request ''prod'' ''web'' ''sidecar'') False) = request ''prod'' ''web'' ''sidecar''
   \<and> Container (opt_after (ExecuteCommand
        (cluster_with (mk_pod ''Running'' [''app'', ''sidecar'']) ''ok'' reject_all :: string World)
        (request '''' ''web'' '''') False)) \<noteq> Container (request '''' ''web'' '''')
   \<and> opt_after (ExecuteCommand
        (cluster_with (mk_pod ''Running'' [''app'', ''sidecar'']) ''ok'' reject_all :: string World)
        (request '''' ''web'' '''') False) = request ''default'' ''web'' ''app''"
proof -
  let ?c = "cluster_with (mk_pod ''Running'' [''app'', ''sidecar'']) ''ok'' reject_all :: string World"
  have named: "opt_after (ExecuteCommand ?c (request ''prod'' ''web'' ''sidecar'') False)
      = request ''prod'' ''web'' ''sidecar''"
    by (simp add: ExecuteCommand_def Let_def exec_and_collect_opt concrete_defs
        default_namespace_def PodSucceeded_def PodFailed_def)
  have unnamed: "opt_after (ExecuteCommand ?c (request '''' ''web'' '''') False)
      = request ''default'' ''web'' ''app''"
    by (simp add: ExecuteCommand_def Let_def exec_and_collect_opt concrete_defs
        default_namespace_def PodSucceeded_def PodFailed_def)
  show ?thesis
    using ExecuteCommand_writes_defaults_only [of ?c "request ''prod'' ''web'' ''sidecar''" False]
      ExecuteCommand_writes_defaults_only [of ?c "request '''' ''web'' ''''" False]
    by (simp add: named unnamed) (simp add: request_def)
qed

text \<open>
  C10. When the request names no container and the fetched pod is not in a terminal
  phase, \<open>ExecuteCommand\<close> takes \<open>pod.Spec.Containers[0]\<close> without a test of the length: on
  a pod without containers the call panics with an index out of range, and on a pod with
  at least one container it stores the first one's name in the request, builds the exec
  request for it and returns a \<open>Response\<close>.
\<close>

theorem ExecuteCommand_default_container_unchecked:
  assumes "PodName opt \<noteq> []" and "Container opt = []"
    and "Pods_Get c (NameSpace (default_namespace opt)) (PodName opt) = Inr pod"
    and "Phase (Status pod) \<noteq> PodSucceeded" and "Phase (Status pod) \<noteq> PodFailed"
  shows "(Containers (Spec pod) = [] \<longrightarrow>
            ret (ExecuteCommand c opt isDestroy) = Inl (IndexOutOfRange 0 0))
         \<and> (Containers (Spec pod) \<noteq> [] \<longrightarrow>
            (\<exists>r. ret (ExecuteCommand c opt isDestroy) = Inr r)
            \<and> Container (opt_after (ExecuteCommand c opt isDestroy)) =
                Name (hd (Containers (Spec pod)))
            \<and> take 2 (calls (ExecuteCommand c opt isDestroy)) =
                [PodsGet (NameSpace (default_namespace opt)) (PodName opt),
                 NewExecutor (exec_request
                   ((default_namespace opt)\<lparr>Container := Name (hd (Containers (Spec pod)))\<rparr>))])"
  using assms
  by (auto simp add: ExecuteCommand_def Let_def exec_and_collect_cases
      split: list.splits option.splits)

theorem ExecuteCommand_default_container_unchecked_witness:
  "PodName (request ''prod'' ''web'' '''') \<noteq> [] \<and> Container (request ''prod'' ''web'' '''') = []
   \<and> Phase (Status (mk_pod ''Running'' [])) \<noteq> PodSucceeded
   \<and> Phase (Status (mk_pod ''Running'' [])) \<noteq> PodFailed
   \<and> Containers (Spec (mk_pod ''Running'' [])) = []
   \<and> ret (ExecuteCommand (cluster_with (mk_pod ''Running'' []) ''ok'' reject_all :: string World)
        (request ''prod'' ''web'' '''') False) = Inl (IndexOutOfRange 0 0)
   \<and> Phase (Status (mk_pod ''Running'' [''app'', ''sidecar''])) \<noteq> PodSucceeded
   \<and> Phase (Status (mk_pod ''Running'' [''app'', ''sidecar''])) \<noteq> PodFailed
   \<and> Containers (Spec (mk_pod ''Running'' [''app'', ''sidecar''])) \<noteq> []
   \<and> ret (ExecuteCommand
        (cluster_with (mk_pod ''Running'' [''app'', ''sidecar'']) ''ok'' reject_all :: string World)
        (request ''prod'' ''web'' '''') False)
       = Inr \<lparr>Code = - 1, Success = False,
              Err = ''unmarsh json ok got error: invalid character'', Result = None\<rparr>
   \<and> Container (opt_after (ExecuteCommand
        (cluster_with (mk_pod ''Running'' [''app'', ''sidecar'']) ''ok'' reject_all :: string World)
        (request ''prod'' ''web'' '''') False)) = ''app''"
proof -
  let ?c0 = "cluster_with (mk_pod ''Running'' []) ''ok'' reject_all :: string World"
  let ?c2 = "cluster_with (mk_pod ''Running'' [''app'', ''sidecar'']) ''ok'' reject_all :: string World"
  have r: "PodName (request ''prod'' ''web'' '''') \<noteq> []" "Container (request ''prod'' ''web'' '''') = []"
    by (simp_all add: request_def)
  have p0: "Phase (Status (mk_pod ''Running'' [])) \<noteq> PodSucceeded"
    "Phase (Status (mk_pod ''Running'' [])) \<noteq> PodFailed"
    and p2: "Phase (Status (mk_pod ''Running'' [''app'', ''sidecar''])) \<noteq> PodSucceeded"
    "Phase (Status (mk_pod ''Running'' [''app'', ''sidecar''])) \<noteq> PodFailed"
    by (simp_all add: mk_pod_def PodSucceeded_def PodFailed_def)
  have g0: "Pods_Get ?c0 (NameSpace (default_namespace (request ''prod'' ''web'' '''')))
      (PodName (request ''prod'' ''web'' '''')) = Inr (mk_pod ''Running'' [])"
    and g2: "Pods_Get ?c2 (NameSpace (default_namespace (request ''prod'' ''web'' '''')))
      (PodName (request ''prod'' ''web'' '''')) = Inr (mk_pod ''Running'' [''app'', ''sidecar''])"
    by (simp_all add: cluster_with_def)
  have e0: "Containers (Spec (mk_pod ''Running'' [])) = []"
    and e2: "Containers (Spec (mk_pod ''Running'' [''app'', ''sidecar''])) \<noteq> []"
    and hd2: "Name (hd (Containers (Spec (mk_pod ''Running'' [''app'', ''sidecar''])))) = ''app''"
    by (simp_all add: mk_pod_def)
  have run2: "ret (ExecuteCommand ?c2 (request ''prod'' ''web'' '''') False)
       = Inr \<lparr>Code = - 1, Success = False,
              Err = ''unmarsh json ok got error: invalid character'', Result = None\<rparr>"
    by (simp add: ExecuteCommand_def Let_def exec_and_collect_cases concrete_defs decode_def
        failure_def default_namespace_def PodSucceeded_def PodFailed_def)
  show ?thesis
    using ExecuteCommand_default_container_unchecked [OF r g0 p0, of False]
      ExecuteCommand_default_container_unchecked [OF r g2 p2, of False]
      r p0 p2 e0 e2 hd2 run2
    by simp
qed

end
